theory Spec2Isabelle
  imports Main "HOL-Library.Word"
begin

unbundle bit_operations_syntax

section \<open>The copy engine of \<^verbatim>\<open>copy.go\<close> as state-passing functions\<close>

text \<open>
  The engine does nothing but call the operating system, an optional injected
  file system and the caller's hooks, and decide from their answers what to call
  next.  The embedding therefore keeps one piece of state, the \<^emph>\<open>trace\<close>: the list
  of calls made so far, oldest first.  Every external call is answered by an
  oracle that may look at the whole trace (so it can stand for any file system
  and any stateful hook), and the call is appended to the trace.  Side effects
  on the destination are read off the trace: a destination that was never the
  argument of a mutating call has not been touched.
\<close>

subsection \<open>Errors, metadata, handles\<close>

type_synonym path = string

text \<open>
  Go's \<^verbatim>\<open>error\<close> values.  \<open>ErrNotExist\<close> stands for every error on which
  \<^verbatim>\<open>os.IsNotExist\<close> answers true; a nil error is \<open>None\<close> of \<open>error option\<close>.
\<close>

datatype error = ErrNotExist | ErrPermission | ErrCanceled | ErrOther string

definition IsNotExist :: "error \<Rightarrow> bool" where
  "IsNotExist e = (e = ErrNotExist)"

text \<open>\<^verbatim>\<open>os.FileMode\<close> is a \<^verbatim>\<open>uint32\<close>; the type bits are those of package \<^verbatim>\<open>io/fs\<close>.\<close>

type_synonym FileMode = "32 word"

definition ModeDir :: FileMode where
  "ModeDir = 2147483648"  \<comment> \<open>\<^verbatim>\<open>1 << 31\<close>\<close>

definition ModeSymlink :: FileMode where
  "ModeSymlink = 134217728"  \<comment> \<open>\<^verbatim>\<open>1 << 27\<close>\<close>

definition ModeDevice :: FileMode where
  "ModeDevice = 67108864"  \<comment> \<open>\<^verbatim>\<open>1 << 26\<close>\<close>

definition ModeNamedPipe :: FileMode where
  "ModeNamedPipe = 33554432"  \<comment> \<open>\<^verbatim>\<open>1 << 25\<close>\<close>

definition ModePerm :: FileMode where
  "ModePerm = 511"  \<comment> \<open>\<^verbatim>\<open>0777\<close>\<close>

text \<open>The part of \<^verbatim>\<open>os.FileInfo\<close> the engine reads: \<^verbatim>\<open>Name()\<close>, \<^verbatim>\<open>Mode()\<close>, \<^verbatim>\<open>IsDir()\<close>.\<close>

record fileinfo =
  Name :: string
  Mode :: FileMode

definition IsDir :: "fileinfo \<Rightarrow> bool" where
  "IsDir info = (Mode info AND ModeDir \<noteq> 0)"

text \<open>
  Open handles.  A reader is the source opened through the OS or through the
  injected file system, possibly wrapped by the \<^verbatim>\<open>WrapReader\<close> hook; a closer is
  what \<^verbatim>\<open>fclose\<close> receives: the source reader or the created destination file.
\<close>

datatype reader = OSFile path | FSFile path | Wrapped reader

datatype closer = ReadCloser reader | DestFile path

text \<open>The outcomes of the two mode hooks; a hook may answer any other integer.\<close>

datatype DirExistsAction = Merge | Replace | Untouchable | OtherDirAction int

datatype SymlinkAction = Deep | Shallow | Skip_symlink | OtherSymlinkAction int

subsection \<open>The trace\<close>

datatype event =
    EvLstat path
  | EvStat path
  | EvFSStat path
  | EvOpen path
  | EvFSOpen path
  | EvClose closer
  | EvMkdirAll path FileMode
  | EvCreate path
  | EvPermissionControl fileinfo path
  | EvChmodFunc path "error option"
  | EvCopyBuffer reader path nat
  | EvSync path
  | EvPreserveOwner path path
  | EvPreserveTimes path
  | EvPreserveLtimes path path
  | EvPcopy path
  | EvReadDir path
  | EvFSReadDir path
  | EvEntryInfo path
  | EvRemoveAll path
  | EvReadlink path
  | EvSymlink path path
  | EvSkip fileinfo path path
  | EvOnSymlink path
  | EvOnDirExists path path
  | EvOnError path path "error option"
  | EvPreferConcurrent path path
  | EvAcquire
  | EvRelease

type_synonym trace = "event list"

text \<open>One external call: the oracle answers from the trace so far, the call is logged.\<close>

definition call :: "event \<Rightarrow> (trace \<Rightarrow> 'a) \<Rightarrow> trace \<Rightarrow> 'a \<times> trace" where
  "call ev oracle h = (oracle h, h @ [ev])"

subsection \<open>The environment and the options\<close>

text \<open>
  Everything the source file calls but does not define: the standard library,
  the platform files of the package (\<^verbatim>\<open>pcopy\<close>, \<^verbatim>\<open>preserveOwner\<close>,
  \<^verbatim>\<open>preserveTimes\<close>, \<^verbatim>\<open>preserveLtimes\<close>), the semaphore.  \<^verbatim>\<open>filepath.Dir\<close> and
  \<^verbatim>\<open>filepath.Join\<close> are pure and stay parameters.
\<close>

record env =
  filepath_Dir :: "path \<Rightarrow> path"
  filepath_Join :: "path \<Rightarrow> path \<Rightarrow> path"
  os_Lstat :: "path \<Rightarrow> trace \<Rightarrow> error + fileinfo"
  os_Stat :: "path \<Rightarrow> trace \<Rightarrow> error + fileinfo"
  os_Open :: "path \<Rightarrow> trace \<Rightarrow> error option"
  os_MkdirAll :: "path \<Rightarrow> FileMode \<Rightarrow> trace \<Rightarrow> error option"
  os_Create :: "path \<Rightarrow> trace \<Rightarrow> error option"
  os_RemoveAll :: "path \<Rightarrow> trace \<Rightarrow> error option"
  os_Readlink :: "path \<Rightarrow> trace \<Rightarrow> error + path"
  os_Symlink :: "path \<Rightarrow> path \<Rightarrow> trace \<Rightarrow> error option"
  ioutil_ReadDir :: "path \<Rightarrow> trace \<Rightarrow> error + fileinfo list"
  io_CopyBuffer :: "reader \<Rightarrow> path \<Rightarrow> nat \<Rightarrow> trace \<Rightarrow> error option"
  file_Sync :: "path \<Rightarrow> trace \<Rightarrow> error option"
  Close :: "closer \<Rightarrow> trace \<Rightarrow> error option"
  pcopy :: "path \<Rightarrow> fileinfo \<Rightarrow> trace \<Rightarrow> error option"
  preserveOwner :: "path \<Rightarrow> path \<Rightarrow> fileinfo \<Rightarrow> trace \<Rightarrow> error option"
  preserveTimes :: "fileinfo \<Rightarrow> path \<Rightarrow> trace \<Rightarrow> error option"
  preserveLtimes :: "path \<Rightarrow> path \<Rightarrow> trace \<Rightarrow> error option"
  PreferConcurrent :: "path \<Rightarrow> path \<Rightarrow> trace \<Rightarrow> bool \<times> error option"
  sem_Acquire :: "trace \<Rightarrow> error option"

text \<open>
  The injected \<^verbatim>\<open>fs.FS\<close>: \<^verbatim>\<open>Open\<close>, \<^verbatim>\<open>fs.Stat\<close>, \<^verbatim>\<open>fs.ReadDir\<close>; a directory entry
  is its \<^verbatim>\<open>Info()\<close> method.
\<close>

type_synonym direntry = "trace \<Rightarrow> error + fileinfo"

record fsys =
  fs_Open :: "path \<Rightarrow> trace \<Rightarrow> error option"
  fs_Stat :: "path \<Rightarrow> trace \<Rightarrow> error + fileinfo"
  fs_ReadDir :: "path \<Rightarrow> trace \<Rightarrow> error + direntry list"

text \<open>
  The finalize action returned by the permission hook: Go's \<^verbatim>\<open>func(*error)\<close>.
  It reads the error behind the pointer and leaves a (possibly different) error
  there.
\<close>

type_synonym chmodfunc = "error option \<Rightarrow> trace \<Rightarrow> error option"

text \<open>
  \<^verbatim>\<open>Options\<close> is declared outside the source file; these are the fields the
  source file reads.  \<^verbatim>\<open>OnSymlink\<close> and \<^verbatim>\<open>PermissionControl\<close> are called without a
  nil check (\<^verbatim>\<open>assureOptions\<close> has filled them in), the other hooks and \<^verbatim>\<open>FS\<close> are
  tested against nil.  \<open>intent_dest\<close> is \<^verbatim>\<open>opt.intent.dest\<close>; \<open>intent_sem\<close> is the
  capacity of \<^verbatim>\<open>opt.intent.sem\<close>, \<open>None\<close> as long as semaphore and context are nil.
\<close>

record Options =
  NumOfWorkers :: int
  FS :: "fsys option"
  OnError :: "(path \<Rightarrow> path \<Rightarrow> error option \<Rightarrow> trace \<Rightarrow> error option) option"
  Specials :: bool
  Skip :: "(fileinfo \<Rightarrow> path \<Rightarrow> path \<Rightarrow> trace \<Rightarrow> bool \<times> error option) option"
  PermissionControl :: "fileinfo \<Rightarrow> path \<Rightarrow> trace \<Rightarrow> chmodfunc \<times> error option"
  WrapReader :: "(reader \<Rightarrow> reader) option"
  CopyBufferSize :: nat
  Sync :: bool
  PreserveOwner :: bool
  PreserveTimes :: bool
  OnDirExists :: "(path \<Rightarrow> path \<Rightarrow> trace \<Rightarrow> DirExistsAction) option"
  OnSymlink :: "path \<Rightarrow> trace \<Rightarrow> SymlinkAction"
  intent_dest :: path
  intent_sem :: "int option"

subsection \<open>The functions without recursion\<close>

text \<open>\<^verbatim>\<open>onError\<close>, lines 370 to 376.\<close>

definition onError :: "path \<Rightarrow> path \<Rightarrow> error option \<Rightarrow> Options \<Rightarrow> trace \<Rightarrow> error option \<times> trace" where
  "onError src dest err opt h =
     (case OnError opt of
        None \<Rightarrow> (err, h)
      | Some hook \<Rightarrow> call (EvOnError src dest err) (hook src dest err) h)"

text \<open>
  \<^verbatim>\<open>fclose\<close>, lines 360 to 366: the handle is closed in any case, and the result
  of closing is reported only when no error was reported before.
\<close>

definition fclose :: "env \<Rightarrow> closer \<Rightarrow> error option \<Rightarrow> trace \<Rightarrow> error option \<times> trace" where
  "fclose E f reported h =
     (case call (EvClose f) (Close E f) h of
        (err, h1) \<Rightarrow> ((if reported = None then err else reported), h1))"

text \<open>\<^verbatim>\<open>lcopy\<close>, lines 346 to 355.\<close>

definition lcopy :: "env \<Rightarrow> path \<Rightarrow> path \<Rightarrow> trace \<Rightarrow> error option \<times> trace" where
  "lcopy E src dest h =
     (case call (EvReadlink src) (os_Readlink E src) h of
        (Inl e, h1) \<Rightarrow> if IsNotExist e then (None, h1) else (Some e, h1)
      | (Inr target, h1) \<Rightarrow> call (EvSymlink target dest) (os_Symlink E target dest) h1)"

text \<open>
  \<^verbatim>\<open>onDirExists\<close>, lines 300 to 315.  The first component of the result is the
  \<^verbatim>\<open>skip\<close> flag.
\<close>

definition onDirExists :: "env \<Rightarrow> Options \<Rightarrow> path \<Rightarrow> path \<Rightarrow> trace \<Rightarrow> (bool \<times> error option) \<times> trace" where
  "onDirExists E opt srcdir destdir h =
     (case call (EvStat destdir) (os_Stat E destdir) h of
        (Inr info, h1) \<Rightarrow>
          (case OnDirExists opt of
             None \<Rightarrow> ((False, None), h1)
           | Some hook \<Rightarrow>
               if destdir \<noteq> intent_dest opt then
                 (case call (EvOnDirExists srcdir destdir) (hook srcdir destdir) h1 of
                    (Replace, h2) \<Rightarrow>
                      (case call (EvRemoveAll destdir) (os_RemoveAll E destdir) h2 of
                         (Some e, h3) \<Rightarrow> ((False, Some e), h3)
                       | (None, h3) \<Rightarrow> ((False, None), h3))
                  | (Untouchable, h2) \<Rightarrow> ((True, None), h2)
                  | (_, h2) \<Rightarrow> ((False, None), h2))
               else ((False, None), h1))
      | (Inl e, h1) \<Rightarrow>
          if \<not> IsNotExist e then ((True, Some e), h1) else ((False, None), h1))"

text \<open>
  \<^verbatim>\<open>fcopy\<close>, lines 141 to 186: what runs between the two deferred closes and
  their execution.  The finalize action is called at once (line 147) on the nil
  error just tested; what it leaves behind the pointer is overwritten by the
  result of \<^verbatim>\<open>io.CopyBuffer\<close> (line 167).  A buffer size other than 0 selects the
  plain-buffer path, so the size is handed to the copy primitive.
\<close>

definition fcopy_write :: "env \<Rightarrow> path \<Rightarrow> path \<Rightarrow> fileinfo \<Rightarrow> Options \<Rightarrow> reader \<Rightarrow> trace \<Rightarrow> error option \<times> trace" where
  "fcopy_write E src dest info opt readcloser h =
     (case call (EvPermissionControl info dest) (PermissionControl opt info dest) h of
        ((chmodfunc, Some e), h1) \<Rightarrow> (Some e, h1)
      | ((chmodfunc, None), h1) \<Rightarrow>
          (case call (EvChmodFunc dest None) (chmodfunc None) h1 of
             (err0, h2) \<Rightarrow>
               (let r = (case WrapReader opt of None \<Rightarrow> readcloser | Some wrap \<Rightarrow> wrap readcloser) in
                case call (EvCopyBuffer r dest (CopyBufferSize opt))
                          (io_CopyBuffer E r dest (CopyBufferSize opt)) h2 of
                  (Some e, h3) \<Rightarrow> (Some e, h3)
                | (None, h3) \<Rightarrow>
                    (case (if Sync opt then call (EvSync dest) (file_Sync E dest) h3 else (None, h3)) of
                       (err, h4) \<Rightarrow>
                         (case (if PreserveOwner opt
                                then call (EvPreserveOwner src dest) (preserveOwner E src dest info) h4
                                else (None, h4)) of
                            (Some e, h5) \<Rightarrow> (Some e, h5)
                          | (None, h5) \<Rightarrow>
                              (case (if PreserveTimes opt
                                     then call (EvPreserveTimes dest) (preserveTimes E info dest) h5
                                     else (None, h5)) of
                                 (Some e, h6) \<Rightarrow> (Some e, h6)
                               | (None, h6) \<Rightarrow> (err, h6)))))))"

text \<open>\<^verbatim>\<open>fcopy\<close>, lines 100 to 106: the source is opened through the file system in use.\<close>

definition openSource :: "env \<Rightarrow> Options \<Rightarrow> path \<Rightarrow> trace \<Rightarrow> (error + reader) \<times> trace" where
  "openSource E opt src h =
     (case FS opt of
        Some fsys \<Rightarrow>
          (case call (EvFSOpen src) (fs_Open fsys src) h of
             (Some e, h1) \<Rightarrow> (Inl e, h1)
           | (None, h1) \<Rightarrow> (Inr (FSFile src), h1))
      | None \<Rightarrow>
          (case call (EvOpen src) (os_Open E src) h of
             (Some e, h1) \<Rightarrow> (Inl e, h1)
           | (None, h1) \<Rightarrow> (Inr (OSFile src), h1)))"

text \<open>
  \<^verbatim>\<open>fcopy\<close>, lines 98 to 187.  The deferred closes run in reverse order of their
  registration on every return after it: the destination file first, then the
  source reader, each through \<^verbatim>\<open>fclose\<close> on the named result.
\<close>

definition fcopy :: "env \<Rightarrow> path \<Rightarrow> path \<Rightarrow> fileinfo \<Rightarrow> Options \<Rightarrow> trace \<Rightarrow> error option \<times> trace" where
  "fcopy E src dest info opt h =
     (case openSource E opt src h of
        (Inl e, h1) \<Rightarrow> if IsNotExist e then (None, h1) else (Some e, h1)
      | (Inr readcloser, h1) \<Rightarrow>
          (case call (EvMkdirAll (filepath_Dir E dest) ModePerm)
                     (os_MkdirAll E (filepath_Dir E dest) ModePerm) h1 of
             (Some e, h2) \<Rightarrow> fclose E (ReadCloser readcloser) (Some e) h2
           | (None, h2) \<Rightarrow>
               (case call (EvCreate dest) (os_Create E dest) h2 of
                  (Some e, h3) \<Rightarrow> fclose E (ReadCloser readcloser) (Some e) h3
                | (None, h3) \<Rightarrow>
                    (case fcopy_write E src dest info opt readcloser h3 of
                       (err, h4) \<Rightarrow>
                         (case fclose E (DestFile dest) err h4 of
                            (err', h5) \<Rightarrow> fclose E (ReadCloser readcloser) err' h5)))))"

subsection \<open>Listing a directory and finishing it\<close>

text \<open>
  Modelled from the spec: \<^verbatim>\<open>shouldCopyDirectoryConcurrent\<close> is declared outside
  the source file.  Section 5 fixes the sequential mode for a worker count of at
  most 1; for a larger count the decision, and the error the call site tests
  for, are left to the environment.
\<close>

definition shouldCopyDirectoryConcurrent :: "env \<Rightarrow> Options \<Rightarrow> path \<Rightarrow> path \<Rightarrow> trace \<Rightarrow> (bool \<times> error option) \<times> trace" where
  "shouldCopyDirectoryConcurrent E opt srcdir destdir h =
     (if NumOfWorkers opt \<le> 1 then ((False, None), h)
      else call (EvPreferConcurrent srcdir destdir) (PreferConcurrent E srcdir destdir) h)"

text \<open>
  \<^verbatim>\<open>dcopy\<close>, lines 217 to 223: the loop over the entries of the injected file
  system.  \<open>Inl\<close> is the \<^verbatim>\<open>return err\<close> of line 220.
\<close>

fun entryInfos :: "path \<Rightarrow> direntry list \<Rightarrow> fileinfo list \<Rightarrow> trace \<Rightarrow> (error + fileinfo list) \<times> trace" where
  "entryInfos srcdir [] contents h = (Inr contents, h)"
| "entryInfos srcdir (e # entries) contents h =
     (case call (EvEntryInfo srcdir) e h of
        (Inl err, h1) \<Rightarrow> (Inl err, h1)
      | (Inr info, h1) \<Rightarrow> entryInfos srcdir entries (contents @ [info]) h1)"

text \<open>
  \<^verbatim>\<open>dcopy\<close>, lines 211 to 233.  \<open>Inl err\<close> is a return from the function with that
  result; \<open>Inr contents\<close> goes on to copy the children.  Under an injected file
  system a listing error returns at line 215, before the test of line 229; the
  \<^verbatim>\<open>err\<close> tested there is then the nil result of the permission hook.
\<close>

definition readContents :: "env \<Rightarrow> Options \<Rightarrow> path \<Rightarrow> trace \<Rightarrow> (error option + fileinfo list) \<times> trace" where
  "readContents E opt srcdir h =
     (case FS opt of
        Some fsys \<Rightarrow>
          (case call (EvFSReadDir srcdir) (fs_ReadDir fsys srcdir) h of
             (Inl e, h1) \<Rightarrow> (Inl (Some e), h1)
           | (Inr entries, h1) \<Rightarrow>
               (case entryInfos srcdir entries [] h1 of
                  (Inl e, h2) \<Rightarrow> (Inl (Some e), h2)
                | (Inr contents, h2) \<Rightarrow> (Inr contents, h2)))
      | None \<Rightarrow>
          (case call (EvReadDir srcdir) (ioutil_ReadDir E srcdir) h of
             (Inl e, h1) \<Rightarrow> if IsNotExist e then (Inl None, h1) else (Inl (Some e), h1)
           | (Inr contents, h1) \<Rightarrow> (Inr contents, h1)))"

text \<open>\<^verbatim>\<open>dcopy\<close>, lines 248 to 260: times, then owner, of the directory itself.\<close>

definition dcopy_preserve :: "env \<Rightarrow> path \<Rightarrow> path \<Rightarrow> fileinfo \<Rightarrow> Options \<Rightarrow> trace \<Rightarrow> error option \<times> trace" where
  "dcopy_preserve E srcdir destdir info opt h =
     (case (if PreserveTimes opt
            then call (EvPreserveTimes destdir) (preserveTimes E info destdir) h
            else (None, h)) of
        (Some e, h1) \<Rightarrow> (Some e, h1)
      | (None, h1) \<Rightarrow>
          (if PreserveOwner opt
           then call (EvPreserveOwner srcdir destdir) (preserveOwner E srcdir destdir info) h1
           else (None, h1)))"

subsection \<open>The recursive functions\<close>

text \<open>
  The dispatcher, the entry gate, the symlink resolver and the directory walker
  call one another.  A symlink chain followed in Deep mode need not end, so the
  dispatcher takes fuel: the number of nested dispatcher calls allowed.  The
  functions the dispatcher calls, and that call it back, receive the dispatcher
  at the remaining fuel as their first argument \<open>sw\<close>.  The result \<open>None\<close> means
  that the call does not return within the fuel, or that it stops with a
  nil-pointer panic (\<^verbatim>\<open>dcopyConcurrent\<close> without a semaphore, which cannot happen
  below \<^verbatim>\<open>Copy\<close>).
\<close>

type_synonym result = "(error option \<times> trace) option"

type_synonym dispatcher = "path \<Rightarrow> path \<Rightarrow> fileinfo \<Rightarrow> Options \<Rightarrow> trace \<Rightarrow> result"

text \<open>\<^verbatim>\<open>copyNextOrSkip\<close>, lines 82 to 93.\<close>

definition copyNextOrSkip :: "dispatcher \<Rightarrow> path \<Rightarrow> path \<Rightarrow> fileinfo \<Rightarrow> Options \<Rightarrow> trace \<Rightarrow> result" where
  "copyNextOrSkip sw src dest info opt h =
     (case Skip opt of
        None \<Rightarrow> sw src dest info opt h
      | Some hook \<Rightarrow>
          (case call (EvSkip info src dest) (hook info src dest) h of
             ((skip, Some e), h1) \<Rightarrow> Some (Some e, h1)
           | ((skip, None), h1) \<Rightarrow>
               if skip then Some (None, h1)
               else sw src dest info opt h1))"

text \<open>\<^verbatim>\<open>onsymlink\<close>, lines 317 to 342.\<close>

definition onsymlink :: "dispatcher \<Rightarrow> env \<Rightarrow> path \<Rightarrow> path \<Rightarrow> Options \<Rightarrow> trace \<Rightarrow> result" where
  "onsymlink sw E src dest opt h =
     (case call (EvOnSymlink src) (OnSymlink opt src) h of
        (Shallow, h1) \<Rightarrow>
          (case lcopy E src dest h1 of
             (Some e, h2) \<Rightarrow> Some (Some e, h2)
           | (None, h2) \<Rightarrow>
               if PreserveTimes opt
               then Some (call (EvPreserveLtimes src dest) (preserveLtimes E src dest) h2)
               else Some (None, h2))
      | (Deep, h1) \<Rightarrow>
          (case call (EvReadlink src) (os_Readlink E src) h1 of
             (Inl e, h2) \<Rightarrow> Some (Some e, h2)
           | (Inr orig, h2) \<Rightarrow>
               (case call (EvLstat orig) (os_Lstat E orig) h2 of
                  (Inl e, h3) \<Rightarrow> Some (Some e, h3)
                | (Inr info, h3) \<Rightarrow> copyNextOrSkip sw orig dest info opt h3))
      | (_, h1) \<Rightarrow> Some (None, h1))"

text \<open>\<^verbatim>\<open>dcopySequential\<close>, lines 263 to 274.\<close>

fun dcopySequential :: "dispatcher \<Rightarrow> env \<Rightarrow> path \<Rightarrow> path \<Rightarrow> fileinfo list \<Rightarrow> Options \<Rightarrow> trace \<Rightarrow> result" where
  "dcopySequential sw E srcdir destdir [] opt h = Some (None, h)"
| "dcopySequential sw E srcdir destdir (content # contents) opt h =
     (case copyNextOrSkip sw (filepath_Join E srcdir (Name content))
                             (filepath_Join E destdir (Name content)) content opt h of
        None \<Rightarrow> None
      | Some (Some e, h1) \<Rightarrow> Some (Some e, h1)
      | Some (None, h1) \<Rightarrow> dcopySequential sw E srcdir destdir contents opt h1)"

text \<open>
  \<^verbatim>\<open>dcopyConcurrent\<close>, lines 277 to 298, starts one goroutine per child and waits
  for all of them.  The model fixes one schedule of the task group: the tasks
  run to completion in listing order, and \<^verbatim>\<open>group.Wait\<close> returns the first error.
  What a blocked or cancelled \<^verbatim>\<open>Acquire\<close> answers is the oracle's business.
  Nothing about tasks running at the same time can be read off this model.

  \<open>getRoutine\<close> is the closure of lines 279 to 291, \<open>runGroup\<close> the loop of lines
  292 to 296 with the wait of line 297.  Semaphore and context are created
  together by \<^verbatim>\<open>Copy\<close>; without them line 278 panics.
\<close>

definition getRoutine :: "dispatcher \<Rightarrow> env \<Rightarrow> Options \<Rightarrow> path \<Rightarrow> path \<Rightarrow> fileinfo \<Rightarrow> trace \<Rightarrow> result" where
  "getRoutine sw E opt cs cd content h =
     (if IsDir content then copyNextOrSkip sw cs cd content opt h
      else
        (case call EvAcquire (sem_Acquire E) h of
           (Some e, h1) \<Rightarrow> Some (Some e, h1)
         | (None, h1) \<Rightarrow>
             (case copyNextOrSkip sw cs cd content opt h1 of
                None \<Rightarrow> None
              | Some (err, h2) \<Rightarrow> Some (err, h2 @ [EvRelease]))))"

fun runGroup :: "dispatcher \<Rightarrow> env \<Rightarrow> path \<Rightarrow> path \<Rightarrow> fileinfo list \<Rightarrow> Options \<Rightarrow> trace \<Rightarrow> result" where
  "runGroup sw E srcdir destdir [] opt h = Some (None, h)"
| "runGroup sw E srcdir destdir (content # contents) opt h =
     (case getRoutine sw E opt (filepath_Join E srcdir (Name content))
                               (filepath_Join E destdir (Name content)) content h of
        None \<Rightarrow> None
      | Some (err, h1) \<Rightarrow>
          (case runGroup sw E srcdir destdir contents opt h1 of
             None \<Rightarrow> None
           | Some (err', h2) \<Rightarrow> Some ((case err of Some e \<Rightarrow> Some e | None \<Rightarrow> err'), h2)))"

definition dcopyConcurrent :: "dispatcher \<Rightarrow> env \<Rightarrow> path \<Rightarrow> path \<Rightarrow> fileinfo list \<Rightarrow> Options \<Rightarrow> trace \<Rightarrow> result" where
  "dcopyConcurrent sw E srcdir destdir contents opt h =
     (case intent_sem opt of
        None \<Rightarrow> None
      | Some capacity \<Rightarrow> runGroup sw E srcdir destdir contents opt h)"

text \<open>
  \<^verbatim>\<open>dcopy\<close> from line 211 on: what runs between the registration of the
  deferred finalize action and its execution.
\<close>

definition dcopy_contents :: "dispatcher \<Rightarrow> env \<Rightarrow> path \<Rightarrow> path \<Rightarrow> fileinfo \<Rightarrow> Options \<Rightarrow> trace \<Rightarrow> result" where
  "dcopy_contents sw E srcdir destdir info opt h =
     (case readContents E opt srcdir h of
        (Inl err, h1) \<Rightarrow> Some (err, h1)
      | (Inr contents, h1) \<Rightarrow>
          (case shouldCopyDirectoryConcurrent E opt srcdir destdir h1 of
             ((yes, Some e), h2) \<Rightarrow> Some (Some e, h2)
           | ((yes, None), h2) \<Rightarrow>
               (case (if yes then dcopyConcurrent sw E srcdir destdir contents opt h2
                      else dcopySequential sw E srcdir destdir contents opt h2) of
                  None \<Rightarrow> None
                | Some (Some e, h3) \<Rightarrow> Some (Some e, h3)
                | Some (None, h3) \<Rightarrow> Some (dcopy_preserve E srcdir destdir info opt h3))))"

text \<open>
  \<^verbatim>\<open>dcopy\<close> from line 205 on: the permission hook, the contents, and the deferred
  finalize action on the named result.
\<close>

definition dcopy_into :: "dispatcher \<Rightarrow> env \<Rightarrow> path \<Rightarrow> path \<Rightarrow> fileinfo \<Rightarrow> Options \<Rightarrow> trace \<Rightarrow> result" where
  "dcopy_into sw E srcdir destdir info opt h =
     (case call (EvPermissionControl info destdir) (PermissionControl opt info destdir) h of
        ((chmodfunc, Some e), h1) \<Rightarrow> Some (Some e, h1)
      | ((chmodfunc, None), h1) \<Rightarrow>
          (case dcopy_contents sw E srcdir destdir info opt h1 of
             None \<Rightarrow> None
           | Some (err, h2) \<Rightarrow> Some (call (EvChmodFunc destdir err) (chmodfunc err) h2)))"

text \<open>\<^verbatim>\<open>dcopy\<close>, lines 192 to 261.\<close>

definition dcopy :: "dispatcher \<Rightarrow> env \<Rightarrow> path \<Rightarrow> path \<Rightarrow> fileinfo \<Rightarrow> Options \<Rightarrow> trace \<Rightarrow> result" where
  "dcopy sw E srcdir destdir info opt h =
     (case onDirExists E opt srcdir destdir h of
        ((skip, Some e), h1) \<Rightarrow> Some (Some e, h1)
      | ((skip, None), h1) \<Rightarrow>
          if skip then Some (None, h1)
          else dcopy_into sw E srcdir destdir info opt h1)"

text \<open>
  \<^verbatim>\<open>switchboard\<close>, lines 57 to 77.  The named result \<^verbatim>\<open>err\<close> is still nil when the
  device branch hands it to \<^verbatim>\<open>onError\<close> (line 61).
\<close>

primrec switchboard :: "nat \<Rightarrow> env \<Rightarrow> path \<Rightarrow> path \<Rightarrow> fileinfo \<Rightarrow> Options \<Rightarrow> trace \<Rightarrow> result" where
  "switchboard 0 E src dest info opt h = None"
| "switchboard (Suc n) E src dest info opt h =
     (if Mode info AND ModeDevice \<noteq> 0 \<and> \<not> Specials opt
      then Some (onError src dest None opt h)
      else
        (case (if Mode info AND ModeSymlink \<noteq> 0 then onsymlink (switchboard n E) E src dest opt h
               else if IsDir info then dcopy (switchboard n E) E src dest info opt h
               else if Mode info AND ModeNamedPipe \<noteq> 0
                 then Some (call (EvPcopy dest) (pcopy E dest info) h)
               else Some (fcopy E src dest info opt h)) of
           None \<Rightarrow> None
         | Some (err, h1) \<Rightarrow> Some (onError src dest err opt h1)))"

subsection \<open>The entry point\<close>

text \<open>
  Modelled from the spec: \<^verbatim>\<open>assureOptions\<close> is declared outside the source file.
  Section 3: the copy intent holds the original destination path.  The
  defaulting of unset hooks is in the types of \<open>Options\<close>; the overlays are taken
  as already merged.
\<close>

definition assureOptions :: "path \<Rightarrow> path \<Rightarrow> Options \<Rightarrow> Options" where
  "assureOptions src dest opts = opts\<lparr>intent_dest := dest\<rparr>"

text \<open>\<^verbatim>\<open>Copy\<close>, lines 23 to 53.\<close>

definition Copy :: "nat \<Rightarrow> env \<Rightarrow> path \<Rightarrow> path \<Rightarrow> Options \<Rightarrow> trace \<Rightarrow> (error option \<times> trace) option" where
  "Copy n E src dest opts h =
     (let opt0 = assureOptions src dest opts;
          opt = (if NumOfWorkers opt0 > 1
                 then opt0\<lparr>intent_sem := Some (NumOfWorkers opt0)\<rparr>
                 else opt0)
      in case FS opt of
           Some fsys \<Rightarrow>
             (case call (EvFSStat src) (fs_Stat fsys src) h of
                (Inl e, h1) \<Rightarrow> Some (onError src dest (Some e) opt h1)
              | (Inr info, h1) \<Rightarrow> switchboard n E src dest info opt h1)
         | None \<Rightarrow>
             (case call (EvLstat src) (os_Lstat E src) h of
                (Inl e, h1) \<Rightarrow> Some (onError src dest (Some e) opt h1)
              | (Inr info, h1) \<Rightarrow> switchboard n E src dest info opt h1))"

subsection \<open>A sample environment\<close>

text \<open>
  An environment in which every call succeeds: every path names a regular file
  of mode 0644, no destination exists yet, directories are empty, links point
  to \<open>target\<close>.  The default options configure no optional hook; the permission
  hook returns a finalize action that leaves the error as it finds it, and
  symlinks are copied shallowly.
\<close>

definition env_ok :: env where
  "env_ok =
     \<lparr> filepath_Dir = (\<lambda>p. rev (drop 1 (dropWhile (\<lambda>c. c \<noteq> CHR ''/'') (rev p)))),
       filepath_Join = (\<lambda>a b. a @ ''/'' @ b),
       os_Lstat = (\<lambda>p h. Inr \<lparr>Name = p, Mode = 420\<rparr>),
       os_Stat = (\<lambda>p h. Inl ErrNotExist),
       os_Open = (\<lambda>p h. None),
       os_MkdirAll = (\<lambda>p m h. None),
       os_Create = (\<lambda>p h. None),
       os_RemoveAll = (\<lambda>p h. None),
       os_Readlink = (\<lambda>p h. Inr ''target''),
       os_Symlink = (\<lambda>t p h. None),
       ioutil_ReadDir = (\<lambda>p h. Inr []),
       io_CopyBuffer = (\<lambda>r p n h. None),
       file_Sync = (\<lambda>p h. None),
       Close = (\<lambda>c h. None),
       pcopy = (\<lambda>p i h. None),
       preserveOwner = (\<lambda>s d i h. None),
       preserveTimes = (\<lambda>i d h. None),
       preserveLtimes = (\<lambda>s d h. None),
       PreferConcurrent = (\<lambda>s d h. (False, None)),
       sem_Acquire = (\<lambda>h. None) \<rparr>"

definition opt_default :: Options where
  "opt_default =
     \<lparr> NumOfWorkers = 0,
       FS = None,
       OnError = None,
       Specials = False,
       Skip = None,
       PermissionControl = (\<lambda>info dest h. ((\<lambda>err h'. err), None)),
       WrapReader = None,
       CopyBufferSize = 0,
       Sync = False,
       PreserveOwner = False,
       PreserveTimes = False,
       OnDirExists = None,
       OnSymlink = (\<lambda>src h. Shallow),
       intent_dest = [],
       intent_sem = None \<rparr>"

text \<open>
  A destination that exists already, with a conflict hook answering \<open>a\<close> below
  the top-level destination \<open>out\<close>.
\<close>

definition env_exists :: env where
  "env_exists = env_ok\<lparr>os_Stat := (\<lambda>p h. Inr \<lparr>Name = p, Mode = ModeDir\<rparr>)\<rparr>"

definition opt_conflict :: "DirExistsAction \<Rightarrow> Options" where
  "opt_conflict a = opt_default\<lparr>OnDirExists := Some (\<lambda>srcdir destdir h. a), intent_dest := ''out''\<rparr>"

text \<open>
  A directory \<open>d\<close> holding the regular files \<open>a\<close> and \<open>b\<close>, of which \<open>a\<close> cannot be
  opened.
\<close>

definition env_tree :: env where
  "env_tree = env_ok
     \<lparr> os_Lstat := (\<lambda>p h. Inr \<lparr>Name = p, Mode = ModeDir\<rparr>),
       ioutil_ReadDir := (\<lambda>p h. Inr [\<lparr>Name = ''a'', Mode = 420\<rparr>, \<lparr>Name = ''b'', Mode = 420\<rparr>]),
       os_Open := (\<lambda>p h. if p = ''d/a'' then Some ErrPermission else None) \<rparr>"

subsection \<open>Dispatchers that only extend the trace\<close>

definition extends :: "dispatcher \<Rightarrow> bool" where
  "extends sw =
     (\<forall>src dest info opt h r h'. sw src dest info opt h = Some (r, h') \<longrightarrow> (\<exists>t. h' = h @ t))"

section \<open>Properties\<close>

lemmas model_defs = Copy_def assureOptions_def onError_def call_def dcopy_def dcopy_into_def
  dcopy_contents_def readContents_def onDirExists_def shouldCopyDirectoryConcurrent_def
  dcopy_preserve_def copyNextOrSkip_def fcopy_def fcopy_write_def openSource_def fclose_def
  IsNotExist_def IsDir_def ModeDir_def ModeDevice_def ModeSymlink_def ModeNamedPipe_def

subsection \<open>The engine only ever appends to the trace\<close>

lemma extendsD: "extends sw \<Longrightarrow> sw src dest info opt h = Some (r, h') \<Longrightarrow> \<exists>t. h' = h @ t"
  unfolding extends_def by blast

lemma call_ext: "call ev f h = (r, h') \<Longrightarrow> h' = h @ [ev]"
  by (simp add: call_def)

lemma onError_ext: "onError src dest err opt h = (r, h') \<Longrightarrow> \<exists>t. h' = h @ t"
  by (auto simp: onError_def call_def split: option.splits)

lemma fclose_ext: "fclose E f reported h = (r, h') \<Longrightarrow> h' = h @ [EvClose f]"
  by (auto simp: fclose_def call_def)

lemma lcopy_ext: "lcopy E src dest h = (r, h') \<Longrightarrow> \<exists>t. h' = h @ t"
  by (auto simp: lcopy_def call_def split: sum.splits if_splits)

lemma onDirExists_ext: "onDirExists E opt srcdir destdir h = (r, h') \<Longrightarrow> \<exists>t. h' = h @ t"
  by (auto simp: onDirExists_def call_def
      split: sum.splits if_splits option.splits DirExistsAction.splits)

lemma fcopy_write_ext: "fcopy_write E src dest info opt rc h = (r, h') \<Longrightarrow> \<exists>t. h' = h @ t"
  by (auto simp: fcopy_write_def call_def Let_def split: option.splits if_splits prod.splits)

lemma openSource_ext: "openSource E opt src h = (r, h') \<Longrightarrow> \<exists>t. h' = h @ t"
  by (auto simp: openSource_def call_def split: option.splits)

lemma fcopy_ext: "fcopy E src dest info opt h = (r, h') \<Longrightarrow> \<exists>t. h' = h @ t"
  by (auto simp: fcopy_def split: prod.splits sum.splits if_splits option.splits
      dest!: openSource_ext fcopy_write_ext fclose_ext call_ext)

lemma entryInfos_ext: "entryInfos srcdir entries contents h = (r, h') \<Longrightarrow> \<exists>t. h' = h @ t"
proof (induction entries arbitrary: contents h)
  case Nil
  then show ?case by simp
next
  case (Cons e entries)
  then show ?case
    by (fastforce simp: call_def split: sum.splits)
qed

lemma readContents_ext: "readContents E opt srcdir h = (r, h') \<Longrightarrow> \<exists>t. h' = h @ t"
  by (auto simp: readContents_def call_def split: option.splits sum.splits if_splits prod.splits
      dest!: entryInfos_ext)

lemma dcopy_preserve_ext:
  "dcopy_preserve E srcdir destdir info opt h = (r, h') \<Longrightarrow> \<exists>t. h' = h @ t"
  by (auto simp: dcopy_preserve_def call_def split: option.splits if_splits prod.splits)

lemma shouldCopyDirectoryConcurrent_ext:
  "shouldCopyDirectoryConcurrent E opt srcdir destdir h = (r, h') \<Longrightarrow> \<exists>t. h' = h @ t"
  by (auto simp: shouldCopyDirectoryConcurrent_def call_def split: if_splits)

lemma copyNextOrSkip_ext:
  assumes sw: "extends sw"
    and "copyNextOrSkip sw src dest info opt h = Some (r, h')"
  shows "\<exists>t. h' = h @ t"
  using assms(2)
  by (auto simp: copyNextOrSkip_def call_def split: option.splits if_splits prod.splits
      dest!: extendsD [OF sw])

lemma onsymlink_ext:
  assumes sw: "extends sw"
    and "onsymlink sw E src dest opt h = Some (r, h')"
  shows "\<exists>t. h' = h @ t"
  using assms(2)
  by (auto simp: onsymlink_def call_def
      split: SymlinkAction.splits option.splits if_splits prod.splits sum.splits
      dest!: copyNextOrSkip_ext [OF sw] lcopy_ext)

lemma dcopySequential_ext:
  assumes sw: "extends sw"
  shows "dcopySequential sw E srcdir destdir contents opt h = Some (r, h') \<Longrightarrow> \<exists>t. h' = h @ t"
proof (induction contents arbitrary: h)
  case Nil
  then show ?case by simp
next
  case (Cons c cs)
  then show ?case
    by (fastforce split: option.splits prod.splits dest!: copyNextOrSkip_ext [OF sw])
qed

lemma getRoutine_ext:
  assumes sw: "extends sw"
    and "getRoutine sw E opt cs cd content h = Some (r, h')"
  shows "\<exists>t. h' = h @ t"
  using assms(2)
  by (auto simp: getRoutine_def call_def split: option.splits if_splits prod.splits
      dest!: copyNextOrSkip_ext [OF sw])

lemma runGroup_ext:
  assumes sw: "extends sw"
  shows "runGroup sw E srcdir destdir contents opt h = Some (r, h') \<Longrightarrow> \<exists>t. h' = h @ t"
proof (induction contents arbitrary: h r)
  case Nil
  then show ?case by simp
next
  case (Cons c cs)
  then show ?case
    by (fastforce split: option.splits prod.splits dest!: getRoutine_ext [OF sw])
qed

lemma dcopyConcurrent_ext:
  assumes sw: "extends sw"
    and "dcopyConcurrent sw E srcdir destdir contents opt h = Some (r, h')"
  shows "\<exists>t. h' = h @ t"
  using assms(2)
  by (auto simp: dcopyConcurrent_def split: option.splits dest!: runGroup_ext [OF sw])

lemma dcopy_contents_ext:
  assumes sw: "extends sw"
    and "dcopy_contents sw E srcdir destdir info opt h = Some (r, h')"
  shows "\<exists>t. h' = h @ t"
  using assms(2)
  by (auto simp: dcopy_contents_def split: option.splits if_splits prod.splits sum.splits
      dest!: readContents_ext shouldCopyDirectoryConcurrent_ext dcopy_preserve_ext
        dcopySequential_ext [OF sw] dcopyConcurrent_ext [OF sw])

lemma dcopy_into_ext:
  assumes sw: "extends sw"
    and "dcopy_into sw E srcdir destdir info opt h = Some (r, h')"
  shows "\<exists>t. h' = h @ t"
  using assms(2)
  by (auto simp: dcopy_into_def call_def split: option.splits prod.splits
      dest!: dcopy_contents_ext [OF sw])

lemma dcopy_ext:
  assumes sw: "extends sw"
    and "dcopy sw E srcdir destdir info opt h = Some (r, h')"
  shows "\<exists>t. h' = h @ t"
  using assms(2)
  by (auto simp: dcopy_def split: option.splits prod.splits if_splits
      dest!: dcopy_into_ext [OF sw] onDirExists_ext)

lemma switchboard_ext:
  "switchboard n E src dest info opt h = Some (r, h') \<Longrightarrow> \<exists>t. h' = h @ t"
proof (induction n arbitrary: src dest info opt h r h')
  case 0
  then show ?case by simp
next
  case (Suc n)
  have sw: "extends (switchboard n E)"
    unfolding extends_def using Suc.IH by blast
  from Suc.prems show ?case
    by (auto simp: call_def split: if_splits option.splits prod.splits
        dest!: onError_ext fcopy_ext onsymlink_ext [OF sw] dcopy_ext [OF sw])
qed

lemma extends_switchboard: "extends (switchboard n E)"
  unfolding extends_def using switchboard_ext by blast

subsection \<open>The dispatcher\<close>

text \<open>
  Claim C1.  The claim asks for a non-nil error when a device-special entry is
  met and specials are not enabled.  The dispatcher hands its named result,
  still nil, to \<^verbatim>\<open>onError\<close> (line 61): without a hook the caller receives nil and
  nothing has been done; with a hook, the hook is called on a nil error.
\<close>

theorem switchboard_device_returns_nil:
  "switchboard 1 env_ok ''/dev/sda'' ''out/sda'' \<lparr>Name = ''sda'', Mode = ModeDevice\<rparr> opt_default [] =
     Some (None, [])
   \<and> switchboard 1 env_ok ''/dev/sda'' ''out/sda'' \<lparr>Name = ''sda'', Mode = ModeDevice\<rparr>
        (opt_default\<lparr>OnError := Some (\<lambda>src dest err h. err)\<rparr>) [] =
     Some (None, [EvOnError ''/dev/sda'' ''out/sda'' None])"
  by (simp add: ModeDevice_def opt_default_def onError_def call_def)

lemma switchboard_ends_with_hook:
  assumes "OnError opt = Some hook" and "switchboard n E src dest info opt h = Some (r, h')"
  shows "\<exists>e h1. h' = h1 @ [EvOnError src dest e] \<and> r = hook src dest e h1"
proof (cases n)
  case 0
  with assms(2) show ?thesis by simp
next
  case (Suc m)
  with assms show ?thesis
    by (auto simp: onError_def call_def split: if_splits option.splits prod.splits)
qed

lemma switchboard_without_hook:
  assumes "OnError opt = None"
  shows "switchboard (Suc n) E src dest info opt h =
     (if Mode info AND ModeDevice \<noteq> 0 \<and> \<not> Specials opt then Some (None, h)
      else if Mode info AND ModeSymlink \<noteq> 0 then onsymlink (switchboard n E) E src dest opt h
      else if IsDir info then dcopy (switchboard n E) E src dest info opt h
      else if Mode info AND ModeNamedPipe \<noteq> 0 then Some (call (EvPcopy dest) (pcopy E dest info) h)
      else Some (fcopy E src dest info opt h))"
  using assms by (simp add: onError_def split: option.splits prod.splits)

lemma switchboard_with_hook:
  assumes "OnError opt = Some hook"
    and "\<not> (Mode info AND ModeDevice \<noteq> 0 \<and> \<not> Specials opt)"
  shows "switchboard (Suc n) E src dest info opt h =
     (case (if Mode info AND ModeSymlink \<noteq> 0 then onsymlink (switchboard n E) E src dest opt h
            else if IsDir info then dcopy (switchboard n E) E src dest info opt h
            else if Mode info AND ModeNamedPipe \<noteq> 0
              then Some (call (EvPcopy dest) (pcopy E dest info) h)
            else Some (fcopy E src dest info opt h)) of
        None \<Rightarrow> None
      | Some (err, h1) \<Rightarrow> Some (hook src dest err h1, h1 @ [EvOnError src dest err]))"
proof -
  have hooked: "\<And>err h1. onError src dest err opt h1 =
      (hook src dest err h1, h1 @ [EvOnError src dest err])"
    by (simp add: onError_def call_def assms(1))
  have "switchboard (Suc n) E src dest info opt h =
     (case (if Mode info AND ModeSymlink \<noteq> 0 then onsymlink (switchboard n E) E src dest opt h
            else if IsDir info then dcopy (switchboard n E) E src dest info opt h
            else if Mode info AND ModeNamedPipe \<noteq> 0
              then Some (call (EvPcopy dest) (pcopy E dest info) h)
            else Some (fcopy E src dest info opt h)) of
        None \<Rightarrow> None
      | Some (err, h1) \<Rightarrow> Some (onError src dest err opt h1))"
    unfolding switchboard.simps by (rule if_not_P [OF assms(2)])
  then show ?thesis
    unfolding hooked .
qed

lemma veto_continues:
  assumes hook: "OnError opt = Some hook"
    and run: "copyNextOrSkip (switchboard n E) cs cd c opt h = Some (r, h0 @ [EvOnError cs cd e])"
    and veto: "hook cs cd e h0 = None"
    and cs: "cs = filepath_Join E srcdir (Name c)" and cd: "cd = filepath_Join E destdir (Name c)"
  shows "r = None \<and>
         dcopySequential (switchboard n E) E srcdir destdir (c # rest) opt h =
         dcopySequential (switchboard n E) E srcdir destdir rest opt (h0 @ [EvOnError cs cd e])"
proof -
  have "r = None"
    using run veto
    by (auto simp: copyNextOrSkip_def call_def split: option.splits prod.splits if_splits
        dest!: switchboard_ends_with_hook [OF hook])
  with run cs cd show ?thesis by simp
qed

text \<open>
  Claim C4, as the claim states it: every failure passes through the
  error-interception hook exactly once, at the entry where it originates.  In
  the directory \<open>d\<close> the file \<open>a\<close> cannot be opened; with a hook that hands every
  error back unchanged, the one failure is passed to the hook at \<open>d/a\<close> and
  again at the enclosing directory \<open>d\<close>.
\<close>

theorem error_intercepted_twice:
  "Copy 2 env_tree ''d'' ''x'' (opt_default\<lparr>OnError := Some (\<lambda>src dest err h. err)\<rparr>) [] =
     Some (Some ErrPermission,
       [EvLstat ''d'', EvStat ''x'', EvPermissionControl \<lparr>Name = ''d'', Mode = ModeDir\<rparr> ''x'',
        EvReadDir ''d'', EvOpen ''d/a'',
        EvOnError ''d/a'' ''x/a'' (Some ErrPermission),
        EvChmodFunc ''x'' (Some ErrPermission),
        EvOnError ''d'' ''x'' (Some ErrPermission)])"
proof -
  have two: "(2::nat) = Suc (Suc 0)" by simp
  show ?thesis
    unfolding two by (simp add: model_defs env_tree_def env_ok_def opt_default_def)
qed

text \<open>
  Claim C4, amended.  For an entry that is handed to a handler (every entry but
  a rejected device), the dispatcher passes exactly what the handler returns, a
  failure or nil, to the error-interception hook, once, as its last step, and
  the hook's answer on it is the result; so a failure leaving a subdirectory is
  passed again at every enclosing directory.  Whenever the dispatcher returns
  with a hook configured, its last call is that hook call.  Without a hook the
  result of the handler is the result of the dispatcher, unchanged.  When the
  hook answers nil at a directory child, the entry gate returns nil for that
  child and the sequential walker goes on with its siblings.
\<close>

theorem error_interception:
  "(OnError opt = Some hook \<and> \<not> (Mode info AND ModeDevice \<noteq> 0 \<and> \<not> Specials opt) \<longrightarrow>
      switchboard (Suc n) E src dest info opt h =
        (case (if Mode info AND ModeSymlink \<noteq> 0 then onsymlink (switchboard n E) E src dest opt h
               else if IsDir info then dcopy (switchboard n E) E src dest info opt h
               else if Mode info AND ModeNamedPipe \<noteq> 0
                 then Some (call (EvPcopy dest) (pcopy E dest info) h)
               else Some (fcopy E src dest info opt h)) of
           None \<Rightarrow> None
         | Some (err, h1) \<Rightarrow> Some (hook src dest err h1, h1 @ [EvOnError src dest err])))
   \<and> (OnError opt = Some hook \<and> switchboard n E src dest info opt h = Some (r, h') \<longrightarrow>
      (\<exists>e h1. h' = h1 @ [EvOnError src dest e] \<and> r = hook src dest e h1))
   \<and> (OnError opt = None \<longrightarrow>
        switchboard (Suc n) E src dest info opt h =
          (if Mode info AND ModeDevice \<noteq> 0 \<and> \<not> Specials opt then Some (None, h)
           else if Mode info AND ModeSymlink \<noteq> 0 then onsymlink (switchboard n E) E src dest opt h
           else if IsDir info then dcopy (switchboard n E) E src dest info opt h
           else if Mode info AND ModeNamedPipe \<noteq> 0
             then Some (call (EvPcopy dest) (pcopy E dest info) h)
           else Some (fcopy E src dest info opt h)))
   \<and> (OnError opt = Some hook \<and>
       cs = filepath_Join E srcdir (Name c) \<and> cd = filepath_Join E destdir (Name c) \<and>
       copyNextOrSkip (switchboard n E) cs cd c opt h = Some (r', h0 @ [EvOnError cs cd e']) \<and>
       hook cs cd e' h0 = None \<longrightarrow>
         r' = None \<and>
         dcopySequential (switchboard n E) E srcdir destdir (c # rest) opt h =
         dcopySequential (switchboard n E) E srcdir destdir rest opt (h0 @ [EvOnError cs cd e']))"
proof (intro conjI impI)
  assume "OnError opt = Some hook \<and> \<not> (Mode info AND ModeDevice \<noteq> 0 \<and> \<not> Specials opt)"
  then have a: "OnError opt = Some hook"
    and b: "\<not> (Mode info AND ModeDevice \<noteq> 0 \<and> \<not> Specials opt)"
    by (rule conjunct1, rule conjunct2)
  show "switchboard (Suc n) E src dest info opt h =
      (case (if Mode info AND ModeSymlink \<noteq> 0 then onsymlink (switchboard n E) E src dest opt h
             else if IsDir info then dcopy (switchboard n E) E src dest info opt h
             else if Mode info AND ModeNamedPipe \<noteq> 0
               then Some (call (EvPcopy dest) (pcopy E dest info) h)
             else Some (fcopy E src dest info opt h)) of
         None \<Rightarrow> None
       | Some (err, h1) \<Rightarrow> Some (hook src dest err h1, h1 @ [EvOnError src dest err]))"
    by (rule switchboard_with_hook [OF a b])
next
  assume "OnError opt = Some hook \<and> switchboard n E src dest info opt h = Some (r, h')"
  then show "\<exists>e h1. h' = h1 @ [EvOnError src dest e] \<and> r = hook src dest e h1"
    using switchboard_ends_with_hook by blast
next
  assume "OnError opt = None"
  then show "switchboard (Suc n) E src dest info opt h =
      (if Mode info AND ModeDevice \<noteq> 0 \<and> \<not> Specials opt then Some (None, h)
       else if Mode info AND ModeSymlink \<noteq> 0 then onsymlink (switchboard n E) E src dest opt h
       else if IsDir info then dcopy (switchboard n E) E src dest info opt h
       else if Mode info AND ModeNamedPipe \<noteq> 0
         then Some (call (EvPcopy dest) (pcopy E dest info) h)
       else Some (fcopy E src dest info opt h))"
    by (rule switchboard_without_hook)
next
  assume a: "OnError opt = Some hook \<and>
       cs = filepath_Join E srcdir (Name c) \<and> cd = filepath_Join E destdir (Name c) \<and>
       copyNextOrSkip (switchboard n E) cs cd c opt h = Some (r', h0 @ [EvOnError cs cd e']) \<and>
       hook cs cd e' h0 = None"
  then have b: "r' = None \<and>
      dcopySequential (switchboard n E) E srcdir destdir (c # rest) opt h =
      dcopySequential (switchboard n E) E srcdir destdir rest opt (h0 @ [EvOnError cs cd e'])"
    using veto_continues [of opt hook n E cs cd c h r' h0 e' srcdir destdir rest] by blast
  from b show "r' = None" by (rule conjunct1)
  from b show "dcopySequential (switchboard n E) E srcdir destdir (c # rest) opt h =
      dcopySequential (switchboard n E) E srcdir destdir rest opt (h0 @ [EvOnError cs cd e'])"
    by (rule conjunct2)
qed

theorem error_interception_witness:
  "switchboard 1 env_tree ''d/a'' ''x/a'' \<lparr>Name = ''a'', Mode = 420\<rparr>
      (opt_default\<lparr>OnError := Some (\<lambda>src dest err h. err)\<rparr>) [] =
     Some (Some ErrPermission, [EvOpen ''d/a'', EvOnError ''d/a'' ''x/a'' (Some ErrPermission)])
   \<and> switchboard 1 env_tree ''d/a'' ''x/a'' \<lparr>Name = ''a'', Mode = 420\<rparr> opt_default [] =
     Some (Some ErrPermission, [EvOpen ''d/a''])
   \<and> dcopySequential (switchboard 1 env_tree) env_tree ''d'' ''x''
        [\<lparr>Name = ''a'', Mode = 420\<rparr>, \<lparr>Name = ''b'', Mode = 420\<rparr>]
        (opt_default\<lparr>OnError := Some (\<lambda>src dest err h. None)\<rparr>) [] =
     Some (None,
       [EvOpen ''d/a'', EvOnError ''d/a'' ''x/a'' (Some ErrPermission),
        EvOpen ''d/b'', EvMkdirAll ''x'' ModePerm, EvCreate ''x/b'',
        EvPermissionControl \<lparr>Name = ''b'', Mode = 420\<rparr> ''x/b'', EvChmodFunc ''x/b'' None,
        EvCopyBuffer (OSFile ''d/b'') ''x/b'' 0,
        EvClose (DestFile ''x/b''), EvClose (ReadCloser (OSFile ''d/b'')),
        EvOnError ''d/b'' ''x/b'' None])"
proof -
  let ?a = "\<lparr>Name = ''a'', Mode = 420\<rparr>" and ?b = "\<lparr>Name = ''b'', Mode = 420\<rparr>"
  let ?pass = "opt_default\<lparr>OnError := Some (\<lambda>src dest err h. err)\<rparr>"
  let ?veto = "opt_default\<lparr>OnError := Some (\<lambda>src dest err h. None)\<rparr>"
  let ?h1 = "[EvOpen ''d/a''] @ [EvOnError ''d/a'' ''x/a'' (Some ErrPermission)]"
  have regular: "OnError ?pass = Some (\<lambda>src dest err h. err) \<and>
      \<not> (Mode ?a AND ModeDevice \<noteq> 0 \<and> \<not> Specials ?pass)"
    by (simp add: opt_default_def ModeDevice_def)
  have kind: "\<not> Mode ?a AND ModeSymlink \<noteq> 0 \<and> \<not> IsDir ?a \<and> \<not> Mode ?a AND ModeNamedPipe \<noteq> 0"
    by (simp add: ModeSymlink_def IsDir_def ModeDir_def ModeNamedPipe_def)
  have handler: "fcopy env_tree ''d/a'' ''x/a'' ?a ?pass [] = (Some ErrPermission, [EvOpen ''d/a''])"
    by (simp add: fcopy_def openSource_def call_def IsNotExist_def env_tree_def env_ok_def
        opt_default_def)
  have "switchboard (Suc 0) env_tree ''d/a'' ''x/a'' ?a ?pass [] =
      (case (if Mode ?a AND ModeSymlink \<noteq> 0
             then onsymlink (switchboard 0 env_tree) env_tree ''d/a'' ''x/a'' ?pass []
             else if IsDir ?a then dcopy (switchboard 0 env_tree) env_tree ''d/a'' ''x/a'' ?a ?pass []
             else if Mode ?a AND ModeNamedPipe \<noteq> 0
               then Some (call (EvPcopy ''x/a'') (pcopy env_tree ''x/a'' ?a) [])
             else Some (fcopy env_tree ''d/a'' ''x/a'' ?a ?pass [])) of
         None \<Rightarrow> None
       | Some (err, h1) \<Rightarrow>
           Some ((\<lambda>src dest err h. err) ''d/a'' ''x/a'' err h1, h1 @ [EvOnError ''d/a'' ''x/a'' err]))"
    using error_interception [where opt = ?pass and hook = "\<lambda>src dest err h. err" and n = 0
        and E = env_tree and src = "''d/a''" and dest = "''x/a''" and info = ?a and h = "[]"]
      regular
    by blast
  with kind handler have passed: "switchboard 1 env_tree ''d/a'' ''x/a'' ?a ?pass [] =
     Some (Some ErrPermission, [EvOpen ''d/a'', EvOnError ''d/a'' ''x/a'' (Some ErrPermission)])"
    by simp
  have verbatim: "switchboard 1 env_tree ''d/a'' ''x/a'' ?a opt_default [] =
     Some (Some ErrPermission, [EvOpen ''d/a''])"
    by (simp add: model_defs env_tree_def env_ok_def opt_default_def)
  have run: "copyNextOrSkip (switchboard 1 env_tree) ''d/a'' ''x/a'' ?a ?veto [] = Some (None, ?h1)"
    by (simp add: model_defs env_tree_def env_ok_def opt_default_def)
  have hyps: "OnError ?veto = Some (\<lambda>src dest err h. None) \<and>
      ''d/a'' = filepath_Join env_tree ''d'' (Name ?a) \<and>
      ''x/a'' = filepath_Join env_tree ''x'' (Name ?a) \<and>
      copyNextOrSkip (switchboard 1 env_tree) ''d/a'' ''x/a'' ?a ?veto [] = Some (None, ?h1) \<and>
      (\<lambda>src dest err h. None) ''d/a'' ''x/a'' (Some ErrPermission) [EvOpen ''d/a''] = (None :: error option)"
    using run by (simp add: env_tree_def env_ok_def opt_default_def)
  have step: "dcopySequential (switchboard 1 env_tree) env_tree ''d'' ''x'' [?a, ?b] ?veto [] =
      dcopySequential (switchboard 1 env_tree) env_tree ''d'' ''x'' [?b] ?veto ?h1"
    using error_interception [where opt = ?veto and hook = "\<lambda>src dest err h. None" and n = 1
        and E = env_tree and cs = "''d/a''" and cd = "''x/a''" and c = ?a and srcdir = "''d''"
        and destdir = "''x''" and h = "[]" and r' = None and h0 = "[EvOpen ''d/a'']"
        and e' = "Some ErrPermission" and rest = "[?b]"] hyps
    by blast
  have rest: "dcopySequential (switchboard 1 env_tree) env_tree ''d'' ''x'' [?b] ?veto ?h1 =
     Some (None,
       [EvOpen ''d/a'', EvOnError ''d/a'' ''x/a'' (Some ErrPermission),
        EvOpen ''d/b'', EvMkdirAll ''x'' ModePerm, EvCreate ''x/b'',
        EvPermissionControl ?b ''x/b'', EvChmodFunc ''x/b'' None,
        EvCopyBuffer (OSFile ''d/b'') ''x/b'' 0,
        EvClose (DestFile ''x/b''), EvClose (ReadCloser (OSFile ''d/b'')),
        EvOnError ''d/b'' ''x/b'' None])"
    by (simp add: model_defs env_tree_def env_ok_def opt_default_def ModePerm_def)
  from passed verbatim step rest show ?thesis by (simp only:)
qed

subsection \<open>The entry gate\<close>

lemma gate_first:
  assumes "Skip opt = Some hook"
    and "copyNextOrSkip (switchboard n E) src dest info opt h = Some (r, h')"
  shows "\<exists>t. h' = h @ EvSkip info src dest # t"
  using assms
  by (auto simp: copyNextOrSkip_def call_def split: prod.splits option.splits if_splits
      dest!: switchboard_ext)

lemma gate_skip:
  assumes "Skip opt = Some hook" and "hook info src dest h = (True, None)"
  shows "copyNextOrSkip sw src dest info opt h = Some (None, h @ [EvSkip info src dest])"
  using assms by (simp add: copyNextOrSkip_def call_def)

lemma gate_sequential_child:
  assumes "Skip opt = Some hook"
    and "dcopySequential (switchboard n E) E srcdir destdir (c # rest) opt h = Some (r, h')"
  shows "\<exists>t. h' = h @ EvSkip c (filepath_Join E srcdir (Name c)) (filepath_Join E destdir (Name c)) # t"
  using assms(2)
  by (auto split: option.splits prod.splits
      dest!: gate_first [OF assms(1)] dcopySequential_ext [OF extends_switchboard])

lemma gate_routine:
  assumes "Skip opt = Some hook"
    and "getRoutine (switchboard n E) E opt cs cd c h = Some (r, h')"
  shows "(\<exists>t. h' = h @ EvSkip c cs cd # t) \<or> (\<exists>t. h' = h @ EvAcquire # EvSkip c cs cd # t) \<or>
         (h' = h @ [EvAcquire] \<and> r \<noteq> None)"
  using assms(2)
  by (auto simp: getRoutine_def call_def split: option.splits prod.splits if_splits
      dest!: gate_first [OF assms(1)])

text \<open>
  Claim C2, as the claim states it: the skip hook is consulted for the top-level
  source too.  \<^verbatim>\<open>Copy\<close> hands the source to the dispatcher without the gate: with
  a hook that skips everything, a top-level regular file is copied all the
  same, and the hook is never called.
\<close>

theorem top_level_source_not_gated:
  "Copy 1 env_ok ''a.txt'' ''out/a.txt''
      (opt_default\<lparr>Skip := Some (\<lambda>info src dest h. (True, None))\<rparr>) [] =
     Some (None,
       [EvLstat ''a.txt'', EvOpen ''a.txt'', EvMkdirAll ''out'' ModePerm, EvCreate ''out/a.txt'',
        EvPermissionControl \<lparr>Name = ''a.txt'', Mode = 420\<rparr> ''out/a.txt'',
        EvChmodFunc ''out/a.txt'' None,
        EvCopyBuffer (OSFile ''a.txt'') ''out/a.txt'' 0,
        EvClose (DestFile ''out/a.txt''), EvClose (ReadCloser (OSFile ''a.txt''))])"
  by (simp add: model_defs env_ok_def opt_default_def ModePerm_def)

text \<open>
  Claim C2, amended.  With a skip hook configured, the hook is the first call
  made for every entry that reaches the entry gate, and so for every child of
  a directory: in the sequential walker it is the first call for the child, in
  a task of the concurrent walker only the acquisition of the limiter slot can
  come before it.  When the hook reports skip (and no error), the gate returns
  nil having called nothing else, and the sequential walker goes on with the
  next child.  The top-level source is not gated.
\<close>

theorem skip_gate:
  assumes "Skip opt = Some hook"
  shows "(copyNextOrSkip (switchboard n E) src dest info opt h = Some (r, h') \<longrightarrow>
            (\<exists>t. h' = h @ EvSkip info src dest # t))
       \<and> (hook info src dest h = (True, None) \<longrightarrow>
            copyNextOrSkip sw src dest info opt h = Some (None, h @ [EvSkip info src dest]))
       \<and> (dcopySequential (switchboard n E) E srcdir destdir (c # rest) opt h = Some (r, h') \<longrightarrow>
            (\<exists>t. h' = h @ EvSkip c (filepath_Join E srcdir (Name c))
                                   (filepath_Join E destdir (Name c)) # t))
       \<and> (hook c (filepath_Join E srcdir (Name c)) (filepath_Join E destdir (Name c)) h = (True, None) \<longrightarrow>
            dcopySequential sw E srcdir destdir (c # rest) opt h =
            dcopySequential sw E srcdir destdir rest opt
              (h @ [EvSkip c (filepath_Join E srcdir (Name c)) (filepath_Join E destdir (Name c))]))
       \<and> (getRoutine (switchboard n E) E opt cs cd c h = Some (r, h') \<longrightarrow>
            (\<exists>t. h' = h @ EvSkip c cs cd # t) \<or> (\<exists>t. h' = h @ EvAcquire # EvSkip c cs cd # t) \<or>
            (h' = h @ [EvAcquire] \<and> r \<noteq> None))"
  using gate_first [OF assms] gate_skip [OF assms] gate_sequential_child [OF assms]
    gate_routine [OF assms]
  by (simp add: gate_skip [OF assms])

theorem skip_gate_witness:
  "copyNextOrSkip (switchboard 1 env_tree) ''d/a'' ''x/a'' \<lparr>Name = ''a'', Mode = 420\<rparr>
      (opt_default\<lparr>Skip := Some (\<lambda>info src dest h. (True, None))\<rparr>) [] =
     Some (None, [EvSkip \<lparr>Name = ''a'', Mode = 420\<rparr> ''d/a'' ''x/a''])
   \<and> dcopySequential (switchboard 1 env_tree) env_tree ''d'' ''x''
        [\<lparr>Name = ''a'', Mode = 420\<rparr>, \<lparr>Name = ''b'', Mode = 420\<rparr>]
        (opt_default\<lparr>Skip := Some (\<lambda>info src dest h. (True, None))\<rparr>) [] =
     Some (None, [EvSkip \<lparr>Name = ''a'', Mode = 420\<rparr> ''d/a'' ''x/a'',
                  EvSkip \<lparr>Name = ''b'', Mode = 420\<rparr> ''d/b'' ''x/b''])"
  using skip_gate [of "opt_default\<lparr>Skip := Some (\<lambda>info src dest h. (True, None))\<rparr>"
      "\<lambda>info src dest h. (True, None)" 1 env_tree "''d/a''" "''x/a''" "\<lparr>Name = ''a'', Mode = 420\<rparr>" "[]"
      None "[EvSkip \<lparr>Name = ''a'', Mode = 420\<rparr> ''d/a'' ''x/a'']" "switchboard 1 env_tree"
      "''d''" "''x''" "\<lparr>Name = ''a'', Mode = 420\<rparr>" "[\<lparr>Name = ''b'', Mode = 420\<rparr>]"]
  by (simp add: model_defs env_tree_def env_ok_def opt_default_def)

subsection \<open>The single-file copier\<close>

lemma openSource_trace:
  "openSource E opt src h = (r, h1) \<Longrightarrow> h1 = h @ [EvOpen src] \<or> h1 = h @ [EvFSOpen src]"
  by (auto simp: openSource_def call_def split: option.splits)

text \<open>
  Claim C8.  If the single-file copier fails to open the source because the file
  does not exist, through the OS or through the injected file system, it returns
  nil and has made no call but the failed open: no parent directory is created,
  no destination file is created or truncated.
\<close>

theorem fcopy_source_vanished:
  assumes "openSource E opt src h = (Inl e, h1)" and "IsNotExist e"
  shows "fcopy E src dest info opt h = (None, h1) \<and>
         (h1 = h @ [EvOpen src] \<or> h1 = h @ [EvFSOpen src])"
  using assms openSource_trace [OF assms(1)] by (simp add: fcopy_def)

theorem fcopy_source_vanished_witness:
  "fcopy (env_ok\<lparr>os_Open := (\<lambda>p h. Some ErrNotExist)\<rparr>) ''gone.txt'' ''out/gone.txt''
      \<lparr>Name = ''gone.txt'', Mode = 420\<rparr> opt_default [] = (None, [EvOpen ''gone.txt''])"
  using fcopy_source_vanished [of "env_ok\<lparr>os_Open := (\<lambda>p h. Some ErrNotExist)\<rparr>" opt_default
      "''gone.txt''" "[]" ErrNotExist "[EvOpen ''gone.txt'']" "''out/gone.txt''"
      "\<lparr>Name = ''gone.txt'', Mode = 420\<rparr>"]
  by (simp add: openSource_def opt_default_def env_ok_def call_def IsNotExist_def)

text \<open>
  Claim C10.  If the permission hook returns an error while a regular file is
  copied, the single-file copier returns that error.  By then \<^verbatim>\<open>os.MkdirAll\<close> on
  the parent directory and \<^verbatim>\<open>os.Create\<close> on the destination have been called and
  have succeeded; after the hook only the two handles are closed, so nothing is
  rolled back.
\<close>

theorem fcopy_permission_error_no_rollback:
  assumes "openSource E opt src h = (Inr readcloser, h1)"
    and "os_MkdirAll E (filepath_Dir E dest) ModePerm h1 = None"
    and "os_Create E dest (h1 @ [EvMkdirAll (filepath_Dir E dest) ModePerm]) = None"
    and "PermissionControl opt info dest
           (h1 @ [EvMkdirAll (filepath_Dir E dest) ModePerm, EvCreate dest]) = (chmodfunc, Some e)"
  shows "fcopy E src dest info opt h =
           (Some e, h1 @ [EvMkdirAll (filepath_Dir E dest) ModePerm, EvCreate dest,
                          EvPermissionControl info dest,
                          EvClose (DestFile dest), EvClose (ReadCloser readcloser)])"
  using assms by (simp add: fcopy_def fcopy_write_def fclose_def call_def)

theorem fcopy_permission_error_no_rollback_witness:
  "fcopy env_ok ''a.txt'' ''out/a.txt'' \<lparr>Name = ''a.txt'', Mode = 420\<rparr>
      (opt_default\<lparr>PermissionControl := (\<lambda>info dest h. ((\<lambda>err h'. err), Some ErrPermission))\<rparr>) [] =
     (Some ErrPermission,
      [EvOpen ''a.txt'', EvMkdirAll ''out'' ModePerm, EvCreate ''out/a.txt'',
       EvPermissionControl \<lparr>Name = ''a.txt'', Mode = 420\<rparr> ''out/a.txt'',
       EvClose (DestFile ''out/a.txt''), EvClose (ReadCloser (OSFile ''a.txt''))])"
  using fcopy_permission_error_no_rollback [of env_ok
      "opt_default\<lparr>PermissionControl := (\<lambda>info dest h. ((\<lambda>err h'. err), Some ErrPermission))\<rparr>"
      "''a.txt''" "[]" "OSFile ''a.txt''" "[EvOpen ''a.txt'']" "''out/a.txt''"
      "\<lparr>Name = ''a.txt'', Mode = 420\<rparr>" "\<lambda>err h'. err" ErrPermission]
  by (simp add: openSource_def opt_default_def env_ok_def call_def)

text \<open>
  Claim C3.  The claim asks that the finalize action of the permission hook be
  applied after the content is written, on every exit path.  The single-file
  copier calls it at once (line 147, no \<^verbatim>\<open>defer\<close>, unlike line 209 of the
  directory walker): on a successful copy it runs before \<^verbatim>\<open>io.CopyBuffer\<close>, and
  when the copy fails it has run on a nil error and is not run again.
\<close>

theorem fcopy_finalize_precedes_content:
  "fcopy env_ok ''a.txt'' ''out/a.txt'' \<lparr>Name = ''a.txt'', Mode = 420\<rparr> opt_default [] =
     (None,
      [EvOpen ''a.txt'', EvMkdirAll ''out'' ModePerm, EvCreate ''out/a.txt'',
       EvPermissionControl \<lparr>Name = ''a.txt'', Mode = 420\<rparr> ''out/a.txt'',
       EvChmodFunc ''out/a.txt'' None,
       EvCopyBuffer (OSFile ''a.txt'') ''out/a.txt'' 0,
       EvClose (DestFile ''out/a.txt''), EvClose (ReadCloser (OSFile ''a.txt''))])
   \<and> fcopy (env_ok\<lparr>io_CopyBuffer := (\<lambda>r p n h. Some ErrPermission)\<rparr>) ''a.txt'' ''out/a.txt''
         \<lparr>Name = ''a.txt'', Mode = 420\<rparr> opt_default [] =
     (Some ErrPermission,
      [EvOpen ''a.txt'', EvMkdirAll ''out'' ModePerm, EvCreate ''out/a.txt'',
       EvPermissionControl \<lparr>Name = ''a.txt'', Mode = 420\<rparr> ''out/a.txt'',
       EvChmodFunc ''out/a.txt'' None,
       EvCopyBuffer (OSFile ''a.txt'') ''out/a.txt'' 0,
       EvClose (DestFile ''out/a.txt''), EvClose (ReadCloser (OSFile ''a.txt''))])"
  by (simp add: fcopy_def fcopy_write_def fclose_def call_def openSource_def
      opt_default_def env_ok_def)

subsection \<open>The directory walker\<close>

text \<open>
  Claim C5.  Let the destination of a directory exist (\<^verbatim>\<open>os.Stat\<close> succeeds), a
  conflict hook be configured, and the destination differ from the original
  top-level destination.  On Replace the walker calls \<^verbatim>\<open>os.RemoveAll\<close> on the
  destination right after the hook and goes on (permission hook, contents) only
  when the removal succeeded; on Untouchable it returns nil having called
  nothing but the stat and the hook; on any other outcome it goes on into the
  existing directory without removing anything.
\<close>

theorem dcopy_conflict_resolution:
  assumes "os_Stat E destdir h = Inr st"
    and "OnDirExists opt = Some hook"
    and "destdir \<noteq> intent_dest opt"
  shows "(hook srcdir destdir (h @ [EvStat destdir]) = Replace \<longrightarrow>
            dcopy sw E srcdir destdir info opt h =
              (case os_RemoveAll E destdir (h @ [EvStat destdir, EvOnDirExists srcdir destdir]) of
                 Some e \<Rightarrow>
                   Some (Some e, h @ [EvStat destdir, EvOnDirExists srcdir destdir, EvRemoveAll destdir])
               | None \<Rightarrow>
                   dcopy_into sw E srcdir destdir info opt
                     (h @ [EvStat destdir, EvOnDirExists srcdir destdir, EvRemoveAll destdir])))
       \<and> (hook srcdir destdir (h @ [EvStat destdir]) = Untouchable \<longrightarrow>
            dcopy sw E srcdir destdir info opt h =
              Some (None, h @ [EvStat destdir, EvOnDirExists srcdir destdir]))
       \<and> (hook srcdir destdir (h @ [EvStat destdir]) \<noteq> Replace \<and>
          hook srcdir destdir (h @ [EvStat destdir]) \<noteq> Untouchable \<longrightarrow>
            dcopy sw E srcdir destdir info opt h =
              dcopy_into sw E srcdir destdir info opt
                (h @ [EvStat destdir, EvOnDirExists srcdir destdir]))"
  using assms
  by (auto simp: dcopy_def onDirExists_def call_def split: DirExistsAction.splits option.splits)

theorem dcopy_conflict_resolution_witness:
  "dcopy (switchboard 1 env_exists) env_exists ''src/sub'' ''out/sub'' \<lparr>Name = ''sub'', Mode = ModeDir\<rparr>
      (opt_conflict Replace) [] =
     Some (None, [EvStat ''out/sub'', EvOnDirExists ''src/sub'' ''out/sub'', EvRemoveAll ''out/sub'',
                  EvPermissionControl \<lparr>Name = ''sub'', Mode = ModeDir\<rparr> ''out/sub'',
                  EvReadDir ''src/sub'', EvChmodFunc ''out/sub'' None])
   \<and> dcopy (switchboard 1 env_exists) env_exists ''src/sub'' ''out/sub'' \<lparr>Name = ''sub'', Mode = ModeDir\<rparr>
      (opt_conflict Untouchable) [] =
     Some (None, [EvStat ''out/sub'', EvOnDirExists ''src/sub'' ''out/sub''])
   \<and> dcopy (switchboard 1 env_exists) env_exists ''src/sub'' ''out/sub'' \<lparr>Name = ''sub'', Mode = ModeDir\<rparr>
      (opt_conflict Merge) [] =
     Some (None, [EvStat ''out/sub'', EvOnDirExists ''src/sub'' ''out/sub'',
                  EvPermissionControl \<lparr>Name = ''sub'', Mode = ModeDir\<rparr> ''out/sub'',
                  EvReadDir ''src/sub'', EvChmodFunc ''out/sub'' None])"
  using dcopy_conflict_resolution [of env_exists "''out/sub''" "[]" "\<lparr>Name = ''out/sub'', Mode = ModeDir\<rparr>"
          "opt_conflict Replace" "\<lambda>srcdir destdir h. Replace" "''src/sub''" "switchboard 1 env_exists"
          "\<lparr>Name = ''sub'', Mode = ModeDir\<rparr>"]
        dcopy_conflict_resolution [of env_exists "''out/sub''" "[]" "\<lparr>Name = ''out/sub'', Mode = ModeDir\<rparr>"
          "opt_conflict Untouchable" "\<lambda>srcdir destdir h. Untouchable" "''src/sub''" "switchboard 1 env_exists"
          "\<lparr>Name = ''sub'', Mode = ModeDir\<rparr>"]
        dcopy_conflict_resolution [of env_exists "''out/sub''" "[]" "\<lparr>Name = ''out/sub'', Mode = ModeDir\<rparr>"
          "opt_conflict Merge" "\<lambda>srcdir destdir h. Merge" "''src/sub''" "switchboard 1 env_exists"
          "\<lparr>Name = ''sub'', Mode = ModeDir\<rparr>"]
  by (simp add: env_exists_def opt_conflict_def opt_default_def env_ok_def
      dcopy_into_def dcopy_contents_def readContents_def shouldCopyDirectoryConcurrent_def
      dcopy_preserve_def call_def)

text \<open>
  Claim C6.  The claim asks that a listing failure "source not found" be a
  benign no-op whichever file system lists the source.  Listed through the OS
  the walker returns nil (line 229); listed through an injected file system it
  returns the error at line 215, before that test is reached.
\<close>

theorem dcopy_listing_not_found_differs:
  "dcopy (switchboard 1 (env_ok\<lparr>ioutil_ReadDir := (\<lambda>p h. Inl ErrNotExist)\<rparr>))
         (env_ok\<lparr>ioutil_ReadDir := (\<lambda>p h. Inl ErrNotExist)\<rparr>)
         ''src'' ''out'' \<lparr>Name = ''src'', Mode = ModeDir\<rparr> opt_default [] =
     Some (None, [EvStat ''out'', EvPermissionControl \<lparr>Name = ''src'', Mode = ModeDir\<rparr> ''out'',
                  EvReadDir ''src'', EvChmodFunc ''out'' None])
   \<and> dcopy (switchboard 1 env_ok) env_ok ''src'' ''out'' \<lparr>Name = ''src'', Mode = ModeDir\<rparr>
         (opt_default\<lparr>FS := Some \<lparr>fs_Open = (\<lambda>p h. None),
                                   fs_Stat = (\<lambda>p h. Inr \<lparr>Name = p, Mode = ModeDir\<rparr>),
                                   fs_ReadDir = (\<lambda>p h. Inl ErrNotExist)\<rparr>\<rparr>) [] =
     Some (Some ErrNotExist,
           [EvStat ''out'', EvPermissionControl \<lparr>Name = ''src'', Mode = ModeDir\<rparr> ''out'',
            EvFSReadDir ''src'', EvChmodFunc ''out'' (Some ErrNotExist)])"
  by (simp add: dcopy_def dcopy_into_def dcopy_contents_def readContents_def onDirExists_def
      call_def opt_default_def env_ok_def IsNotExist_def)

subsection \<open>The symlink resolver\<close>

text \<open>
  Claim C7.  The claim asks that a link that no longer exists be a benign no-op
  in Shallow and in Deep mode.  In Shallow mode \<^verbatim>\<open>lcopy\<close> tests \<^verbatim>\<open>os.IsNotExist\<close> and
  returns nil; in Deep mode the error of \<^verbatim>\<open>os.Readlink\<close> is returned as it is
  (line 330).
\<close>

theorem onsymlink_vanished_link_deep_fails:
  "onsymlink (switchboard 1 (env_ok\<lparr>os_Readlink := (\<lambda>p h. Inl ErrNotExist)\<rparr>))
             (env_ok\<lparr>os_Readlink := (\<lambda>p h. Inl ErrNotExist)\<rparr>)
             ''link'' ''out/link'' (opt_default\<lparr>OnSymlink := (\<lambda>src h. Deep)\<rparr>) [] =
     Some (Some ErrNotExist, [EvOnSymlink ''link'', EvReadlink ''link''])
   \<and> onsymlink (switchboard 1 (env_ok\<lparr>os_Readlink := (\<lambda>p h. Inl ErrNotExist)\<rparr>))
             (env_ok\<lparr>os_Readlink := (\<lambda>p h. Inl ErrNotExist)\<rparr>)
             ''link'' ''out/link'' (opt_default\<lparr>OnSymlink := (\<lambda>src h. Shallow)\<rparr>) [] =
     Some (None, [EvOnSymlink ''link'', EvReadlink ''link''])"
  by (simp add: onsymlink_def lcopy_def call_def opt_default_def env_ok_def IsNotExist_def)

end
